theory Spec2Isabelle
  imports Main "HOL-Library.Word" "HOL-Library.Sublist"
begin

section \<open>JavaScript strings\<close>

text \<open>
  A JavaScript string is a sequence of UTF-16 code units. The regular expressions of
  \<^verbatim>\<open>geminiService.ts\<close> carry no \<^verbatim>\<open>u\<close> flag, so they work on code units too.
\<close>

type_synonym code_unit = "16 word"
type_synonym jsstring = "code_unit list"

definition ascii :: "string \<Rightarrow> jsstring" where
  "ascii s = map of_char s"

text \<open>The class \<^verbatim>\<open>\d\<close>: the ten ASCII digits.\<close>

definition is_digit :: "code_unit \<Rightarrow> bool" where
  "is_digit c \<longleftrightarrow> 0x30 \<le> c \<and> c \<le> 0x39"

text \<open>
  The class \<^verbatim>\<open>\s\<close>, which is also what \<^verbatim>\<open>String.prototype.trim\<close> removes:
  ECMAScript's WhiteSpace (TAB, VT, FF, SP, NBSP, ZWNBSP and the space separators) and
  LineTerminator (LF, CR, LS, PS).
\<close>

definition is_space :: "code_unit \<Rightarrow> bool" where
  "is_space c \<longleftrightarrow>
     c = 0x09 \<or> c = 0x0A \<or> c = 0x0B \<or> c = 0x0C \<or> c = 0x0D \<or> c = 0x20 \<or> c = 0xA0 \<or>
     c = 0x1680 \<or> (0x2000 \<le> c \<and> c \<le> 0x200A) \<or> c = 0x2028 \<or> c = 0x2029 \<or>
     c = 0x202F \<or> c = 0x205F \<or> c = 0x3000 \<or> c = 0xFEFF"

text \<open>\<^verbatim>\<open>s.trim()\<close>\<close>

definition trim :: "jsstring \<Rightarrow> jsstring" where
  "trim s = rev (dropWhile is_space (rev (dropWhile is_space s)))"

text \<open>\<^verbatim>\<open>s.includes(pat)\<close>\<close>

fun js_includes :: "jsstring \<Rightarrow> jsstring \<Rightarrow> bool" where
  "js_includes [] pat = (pat = [])"
| "js_includes (c # cs) pat = (prefix pat (c # cs) \<or> js_includes cs pat)"

section \<open>Response clean-up of \<^verbatim>\<open>generateSubtitles\<close>\<close>

subsection \<open>Fence removal and trimming\<close>

text \<open>
  \<^verbatim>\<open>/```srt/gi\<close> at the head of a string. Without the \<^verbatim>\<open>u\<close> flag, case-insensitive
  matching never maps a non-ASCII code unit to an ASCII one, so only the two cases of
  each of the three letters match.
\<close>

fun fence_srt_here :: "jsstring \<Rightarrow> bool" where
  "fence_srt_here (a # b # c # s # r # t # _) =
     (a = 0x60 \<and> b = 0x60 \<and> c = 0x60 \<and> (s = 0x73 \<or> s = 0x53) \<and>
      (r = 0x72 \<or> r = 0x52) \<and> (t = 0x74 \<or> t = 0x54))"
| "fence_srt_here _ = False"

text \<open>\<^verbatim>\<open>/```/g\<close> at the head of a string.\<close>

fun fence_here :: "jsstring \<Rightarrow> bool" where
  "fence_here (a # b # c # _) = (a = 0x60 \<and> b = 0x60 \<and> c = 0x60)"
| "fence_here _ = False"

text \<open>
  \<^verbatim>\<open>text.replace(/```srt/gi, '')\<close>: a global replace scans from the left; after a match
  it resumes behind the match, so matches do not overlap.
\<close>

fun strip_srt_fences :: "jsstring \<Rightarrow> jsstring" where
  "strip_srt_fences [] = []"
| "strip_srt_fences (c # cs) =
     (if fence_srt_here (c # cs) then strip_srt_fences (drop 5 cs)
      else c # strip_srt_fences cs)"

text \<open>\<^verbatim>\<open>.replace(/```/g, '')\<close>\<close>

fun strip_fences :: "jsstring \<Rightarrow> jsstring" where
  "strip_fences [] = []"
| "strip_fences (c # cs) =
     (if fence_here (c # cs) then strip_fences (drop 2 cs)
      else c # strip_fences cs)"

text \<open>
  \<^verbatim>\<open>let cleanText = text.replace(/```srt/gi, '').replace(/```/g, '').trim();\<close>
\<close>

definition normalize_text :: "jsstring \<Rightarrow> jsstring" where
  "normalize_text text = trim (strip_fences (strip_srt_fences text))"

subsection \<open>The repair pass\<close>

text \<open>\<^verbatim>\<open>/^\d+/.test(cleanText)\<close>\<close>

fun starts_with_digit :: "jsstring \<Rightarrow> bool" where
  "starts_with_digit [] = False"
| "starts_with_digit (c # _) = is_digit c"

text \<open>
  The expression \<^verbatim>\<open>/\d+\s*\n\d{2}:\d{2}:\d{2}/\<close>, read from the right.
  \<open>timestamp_here\<close> is \<^verbatim>\<open>\d{2}:\d{2}:\d{2}\<close> at the head of a string;
  \<open>spaces_newline_here\<close> is \<^verbatim>\<open>\s*\n\d{2}:\d{2}:\d{2}\<close> (any number of
  \<^verbatim>\<open>\s\<close>, each choice tried as backtracking does);
  \<open>anchor_here\<close> is the whole expression at the head of a string.
\<close>

fun timestamp_here :: "jsstring \<Rightarrow> bool" where
  "timestamp_here (h1 # h2 # c1 # m1 # m2 # c2 # s1 # s2 # _) =
     (is_digit h1 \<and> is_digit h2 \<and> c1 = 0x3A \<and> is_digit m1 \<and> is_digit m2 \<and> c2 = 0x3A \<and>
      is_digit s1 \<and> is_digit s2)"
| "timestamp_here _ = False"

fun spaces_newline_here :: "jsstring \<Rightarrow> bool" where
  "spaces_newline_here [] = False"
| "spaces_newline_here (c # cs) =
     ((is_space c \<and> spaces_newline_here cs) \<or> (c = 0x0A \<and> timestamp_here cs))"

fun anchor_here :: "jsstring \<Rightarrow> bool" where
  "anchor_here [] = False"
| "anchor_here (c # cs) = (is_digit c \<and> (anchor_here cs \<or> spaces_newline_here cs))"

text \<open>
  \<^verbatim>\<open>cleanText.match(...)\<close> without the \<^verbatim>\<open>g\<close> flag: the leftmost position at which
  the expression matches, as \<^verbatim>\<open>match.index\<close>; \<open>None\<close> is \<^verbatim>\<open>null\<close>.
\<close>

fun match_index :: "jsstring \<Rightarrow> nat option" where
  "match_index [] = None"
| "match_index (c # cs) =
     (if anchor_here (c # cs) then Some 0 else map_option Suc (match_index cs))"

text \<open>
  The block after the clean-up:
  \<^verbatim>\<open>
  if (!/^\d+/.test(cleanText)) {
     const match = cleanText.match(/\d+\s*\n\d{2}:\d{2}:\d{2}/);
     if (match && match.index !== undefined) {
       cleanText = cleanText.substring(match.index);
     }
  }
  return cleanText;
  \<close>
\<close>

definition repair :: "jsstring \<Rightarrow> jsstring" where
  "repair cleanText =
     (if \<not> starts_with_digit cleanText then
        (case match_index cleanText of
           Some i \<Rightarrow> drop i cleanText
         | None \<Rightarrow> cleanText)
      else cleanText)"

section \<open>The request of \<^verbatim>\<open>generateSubtitles\<close>\<close>

subsection \<open>Literals of \<^verbatim>\<open>geminiService.ts\<close>\<close>

text \<open>
  The string literals of the source, as code units; the printable ASCII runs are written
  as text. In a template literal the source writes each backtick with a backslash, which
  stands for the backtick alone.
\<close>

text \<open>\<^verbatim>\<open>throw new Error(...)\<close> of the credential check.\<close>

definition msgNoApiKey :: jsstring where
  "msgNoApiKey =
     [0x672A, 0x68C0, 0x6D4B, 0x5230] @ ascii '' API Key'' @
     [0x3002, 0x8BF7, 0x68C0, 0x67E5, 0x60A8, 0x7684, 0x73AF, 0x5883, 0x914D, 0x7F6E, 0x3002]"

text \<open>\<^verbatim>\<open>const systemInstruction\<close>\<close>

definition systemInstruction :: jsstring where
  "systemInstruction =
     [0x4F60, 0x662F, 0x4E00, 0x4F4D, 0x4E13, 0x4E1A, 0x7684, 0x89C6, 0x9891, 0x5B57, 0x5E55,
      0x7F16, 0x8F91, 0x5668, 0x548C, 0x7FFB, 0x8BD1, 0x4E13, 0x5BB6, 0x3002]"

text \<open>\<^verbatim>\<open>const commonRequirements\<close>: a heading and the items 1 to 6.\<close>

definition commonRequirements :: jsstring where
  "commonRequirements =
     [0x0A] @ ascii ''    '' @ [0x4EFB, 0x52A1] @ ascii '':'' @ [0x0A] @ ascii ''    1. '' @
     [0x4ED4, 0x7EC6, 0x8046, 0x542C, 0x97F3, 0x9891, 0x5185, 0x5BB9, 0x3002, 0x0A] @
     ascii ''    2. '' @ [0x751F, 0x6210, 0x7B26, 0x5408, 0x6807, 0x51C6] @
     ascii '' SubRip (.srt) '' @ [0x683C, 0x5F0F, 0x7684, 0x5B57, 0x5E55, 0x3002, 0x0A] @
     ascii ''    3. '' @
     [0x786E, 0x4FDD, 0x65F6, 0x95F4, 0x8F74, 0x6781, 0x5176, 0x7CBE, 0x51C6] @ ascii '' ('' @
     [0x683C, 0x5F0F] @ ascii '': HH:MM:SS,mmm)'' @ [0x3002, 0x0A] @ ascii ''    4. **'' @
     [0x7EDD, 0x5BF9, 0x4E0D, 0x8981] @ ascii ''**'' @ [0x5305, 0x542B, 0x4EFB, 0x4F55] @
     ascii '' Markdown '' @
     [0x4EE3, 0x7801, 0x5757, 0x683C, 0x5F0F, 0xFF08, 0x4F8B, 0x5982, 0x4E0D, 0x8981, 0x5199] @
     ascii '' ```srt '' @ [0x6216] @ ascii '' ```'' @
     [0xFF09, 0x3002, 0x76F4, 0x63A5, 0x8F93, 0x51FA, 0x7EAF, 0x6587, 0x672C, 0x5185, 0x5BB9,
      0x3002, 0x0A] @
     ascii ''    5. **'' @ [0x7EDD, 0x5BF9, 0x4E0D, 0x8981] @ ascii ''**'' @ [0x5728] @
     ascii '' SRT '' @
     [0x5185, 0x5BB9, 0x524D, 0x540E, 0x6DFB, 0x52A0, 0x4EFB, 0x4F55, 0x95F2, 0x804A, 0x3001,
      0x89E3, 0x91CA, 0x6216, 0x524D, 0x8A00, 0x3002, 0x0A] @
     ascii ''    6. '' @
     [0x6839, 0x636E, 0x8BED, 0x97F3, 0x505C, 0x987F, 0x81EA, 0x7136, 0x6362, 0x884C, 0x3002,
      0x0A] @
     ascii ''  ''"

text \<open>The four values \<^verbatim>\<open>specificInstruction\<close> is assigned in the \<^verbatim>\<open>switch\<close>.\<close>

definition instr_TRANSCRIPT_ONLY :: jsstring where
  "instr_TRANSCRIPT_ONLY =
     ascii ''7. '' @
     [0x9010, 0x5B57, 0x9010, 0x53E5, 0x8F6C, 0x5F55, 0x97F3, 0x9891, 0x4E2D, 0x7684, 0x539F,
      0x59CB, 0x5185, 0x5BB9, 0xFF0C, 0x4E0D, 0x8981, 0x8FDB, 0x884C, 0x7FFB, 0x8BD1, 0x3002]"

definition instr_TO_ENGLISH :: jsstring where
  "instr_TO_ENGLISH =
     ascii ''7. '' @
     [0x5C06, 0x8BED, 0x97F3, 0x5185, 0x5BB9, 0x7FFB, 0x8BD1, 0x6210, 0x81EA, 0x7136, 0x3001,
      0x9AD8, 0x8D28, 0x91CF, 0x7684, 0x82F1, 0x6587, 0xFF08] @
     ascii ''English'' @ [0xFF09, 0x5B57, 0x5E55, 0x3002]"

definition instr_TO_CHINESE :: jsstring where
  "instr_TO_CHINESE =
     ascii ''7. '' @
     [0x5C06, 0x8BED, 0x97F3, 0x5185, 0x5BB9, 0x7FFB, 0x8BD1, 0x6210, 0x81EA, 0x7136, 0x3001,
      0x6D41, 0x7545, 0x7684, 0x7B80, 0x4F53, 0x4E2D, 0x6587, 0x5B57, 0x5E55, 0x3002]"

definition instr_BILINGUAL_CN_EN :: jsstring where
  "instr_BILINGUAL_CN_EN =
     ascii ''7. '' @ [0x63D0, 0x4F9B, 0x53CC, 0x8BED, 0x5B57, 0x5E55, 0x3002, 0x0A] @
     ascii ''      '' @ [0x683C, 0x5F0F, 0x8981, 0x6C42] @ ascii '':'' @ [0x0A] @
     ascii ''      '' @
     [0x7B2C, 0x4E00, 0x884C, 0xFF1A, 0x7B80, 0x4F53, 0x4E2D, 0x6587, 0x0A] @
     ascii ''      '' @ [0x7B2C, 0x4E8C, 0x884C, 0xFF1A] @ ascii ''English'' @ [0x0A] @
     ascii ''      '' @ [0x0A] @ ascii ''      '' @ [0x793A, 0x4F8B] @ ascii '':'' @ [0x0A] @
     ascii ''      1'' @ [0x0A] @ ascii ''      00:00:01,000 --> 00:00:04,000'' @ [0x0A] @
     ascii ''      '' @
     [0x4F60, 0x597D, 0xFF0C, 0x5F88, 0x9AD8, 0x5174, 0x89C1, 0x5230, 0x4F60, 0x3002, 0x0A] @
     ascii ''      Hello, nice to meet you.'' @ [0x0A] @ ascii ''      ''"

text \<open>The messages of the response check and of the \<^verbatim>\<open>catch\<close> block.\<close>

definition msgNoContent :: jsstring where
  "msgNoContent =
     ascii ''Gemini '' @ [0x672A, 0x8FD4, 0x56DE, 0x4EFB, 0x4F55, 0x5185, 0x5BB9, 0x3002]"

definition msgUnknown :: jsstring where
  "msgUnknown =
     [0x5904, 0x7406, 0x97F3, 0x9891, 0x65F6, 0x53D1, 0x751F, 0x672A, 0x77E5, 0x9519, 0x8BEF,
      0x3002]"

definition msgApiKeyInvalid :: jsstring where
  "msgApiKeyInvalid =
     ascii ''API Key '' @ [0x65E0, 0x6548, 0x6216, 0x672A, 0x914D, 0x7F6E, 0x3002]"

definition msgSafety :: jsstring where
  "msgSafety =
     [0x7531, 0x4E8E, 0x5B89, 0x5168, 0x7B56, 0x7565, 0xFF0C, 0x5185, 0x5BB9, 0x88AB, 0x62E6,
      0x622A, 0x3002]"

definition msgQuota :: jsstring where
  "msgQuota =
     [0x8BF7, 0x6C42, 0x8FC7, 0x591A, 0xFF0C, 0x8BF7, 0x7A0D, 0x540E, 0x518D, 0x8BD5] @
     ascii '' (Quota Exceeded)'' @ [0x3002]"

subsection \<open>Instruction text\<close>

text \<open>\<^verbatim>\<open>enum TranslationMode\<close> of \<^verbatim>\<open>types.ts\<close>.\<close>

datatype TranslationMode = TRANSCRIPT_ONLY | TO_ENGLISH | TO_CHINESE | BILINGUAL_CN_EN

text \<open>
  \<^verbatim>\<open>let specificInstruction = ""; switch (mode) { ... }\<close>: every value of the
  enumeration has its case.
\<close>

fun specificInstruction :: "TranslationMode \<Rightarrow> jsstring" where
  "specificInstruction TRANSCRIPT_ONLY = instr_TRANSCRIPT_ONLY"
| "specificInstruction TO_ENGLISH = instr_TO_ENGLISH"
| "specificInstruction TO_CHINESE = instr_TO_CHINESE"
| "specificInstruction BILINGUAL_CN_EN = instr_BILINGUAL_CN_EN"

text \<open>\<^verbatim>\<open>const promptText = `${commonRequirements}\n${specificInstruction}`;\<close>\<close>

definition promptText :: "TranslationMode \<Rightarrow> jsstring" where
  "promptText mode = commonRequirements @ [0x0A] @ specificInstruction mode"

subsection \<open>Encoding the audio\<close>

text \<open>A \<^verbatim>\<open>Blob\<close>: its bytes and its \<^verbatim>\<open>type\<close>.\<close>

record blob =
  blob_bytes :: "8 word list"
  blob_type :: jsstring

text \<open>\<^verbatim>\<open>s.split(',')\<close>: the pieces between the commas, at least one.\<close>

fun split_comma :: "jsstring \<Rightarrow> jsstring list" where
  "split_comma [] = [[]]"
| "split_comma (c # cs) =
     (case split_comma cs of
        [] \<Rightarrow> [[c]]
      | p # ps \<Rightarrow> if c = 0x2C then [] # p # ps else (c # p) # ps)"

text \<open>\<^verbatim>\<open>xs[1]\<close>, which is \<^verbatim>\<open>undefined\<close> (\<open>None\<close>) on a shorter array.\<close>

fun second :: "'a list \<Rightarrow> 'a option" where
  "second (_ # x # _) = Some x"
| "second _ = None"

record inlineData =
  data :: "jsstring option"
  mimeType :: jsstring

text \<open>
  \<^verbatim>\<open>fileToGenerativePart\<close>. The reader's result (the data URL of the file) is the
  browser's; the function takes it as \<open>dataURL\<close>.
  \<^verbatim>\<open>
  const base64String = (reader.result as string).split(',')[1];
  ...
  mimeType: file.type || 'audio/mp3',
  \<close>
\<close>

definition fileToGenerativePart :: "(blob \<Rightarrow> jsstring) \<Rightarrow> blob \<Rightarrow> inlineData" where
  "fileToGenerativePart dataURL file =
     \<lparr> data = second (split_comma (dataURL file)),
       mimeType = (if blob_type file = [] then ascii ''audio/mp3'' else blob_type file) \<rparr>"

subsection \<open>The call and its result\<close>

text \<open>
  The argument of \<^verbatim>\<open>ai.models.generateContent\<close>. The temperature \<^verbatim>\<open>0.3\<close> is kept
  in tenths.
\<close>

record request =
  model :: jsstring
  audioPart :: inlineData
  textPart :: jsstring
  config_systemInstruction :: jsstring
  config_temperature_tenths :: nat

text \<open>
  What the call gives back: a response, whose \<^verbatim>\<open>text\<close> may be \<^verbatim>\<open>undefined\<close>, or a
  rejection with an \<^verbatim>\<open>Error\<close> of some message.
\<close>

datatype reply = Response "jsstring option" | Rejected jsstring

text \<open>
  Everything \<^verbatim>\<open>generateSubtitles\<close> reads from outside: the module constant
  \<^verbatim>\<open>GEMINI_API_KEY = process.env.API_KEY || ''\<close>, the file reader and the model.
\<close>

record platform =
  GEMINI_API_KEY :: jsstring
  readAsDataURL :: "blob \<Rightarrow> jsstring"
  generateContent :: "request \<Rightarrow> reply"

text \<open>What a call of \<^verbatim>\<open>generateSubtitles\<close> does to the outside, in order.\<close>

datatype effect = FileRead blob | ModelCall request

text \<open>
  The \<^verbatim>\<open>catch\<close> block: the message of the \<^verbatim>\<open>Error\<close> it throws, from the message of
  the one it caught. The initial value of \<^verbatim>\<open>errorMsg\<close> is overwritten on every
  branch.
\<close>

definition catch_message :: "jsstring \<Rightarrow> jsstring" where
  "catch_message message =
     (if js_includes message (ascii ''API key'') then msgApiKeyInvalid
      else if js_includes message (ascii ''SAFETY'') then msgSafety
      else if js_includes message (ascii ''429'') then msgQuota
      else message)"

text \<open>
  \<^verbatim>\<open>!text\<close> for \<^verbatim>\<open>text: string | undefined\<close>: true of \<^verbatim>\<open>undefined\<close> and of the
  empty string.
\<close>

fun falsy :: "jsstring option \<Rightarrow> bool" where
  "falsy None = True"
| "falsy (Some s) = (s = [])"

text \<open>
  \<^verbatim>\<open>generateSubtitles\<close>: the effects in order, and the rejection (\<open>Inl\<close>, the
  error's message) or the resolved string (\<open>Inr\<close>). The credential check stands before
  the \<^verbatim>\<open>try\<close>; the response check and the clean-up stand inside it, so what they
  throw passes through the \<^verbatim>\<open>catch\<close> block.
\<close>

definition generateSubtitles ::
  "platform \<Rightarrow> blob \<Rightarrow> TranslationMode \<Rightarrow> effect list \<times> (jsstring + jsstring)" where
  "generateSubtitles p audioFile mode =
     (if GEMINI_API_KEY p = [] then ([], Inl msgNoApiKey)
      else
        let part = fileToGenerativePart (readAsDataURL p) audioFile;
            req = \<lparr> model = ascii ''gemini-2.5-flash'',
                    audioPart = part,
                    textPart = promptText mode,
                    config_systemInstruction = systemInstruction,
                    config_temperature_tenths = 3 \<rparr>
        in ([FileRead audioFile, ModelCall req],
            (case generateContent p req of
               Rejected message \<Rightarrow> Inl (catch_message message)
             | Response text \<Rightarrow>
                 if falsy text then Inl (catch_message msgNoContent)
                 else Inr (repair (normalize_text (the text))))))"

section \<open>The session controller of \<^verbatim>\<open>App.tsx\<close>\<close>

subsection \<open>State\<close>

text \<open>Literals of \<^verbatim>\<open>handleProcess\<close>.\<close>

definition msgUploading :: jsstring where
  "msgUploading =
     [0x6B63, 0x5728, 0x4E0A, 0x4F20, 0x5E76, 0x5206, 0x6790, 0x97F3, 0x9891] @ ascii ''...''"

definition msgDone :: jsstring where
  "msgDone =
     [0x5B8C, 0x6210]"

definition msgRetry :: jsstring where
  "msgRetry =
     [0x53D1, 0x751F, 0x672A, 0x77E5, 0x9519, 0x8BEF, 0xFF0C, 0x8BF7, 0x91CD, 0x8BD5, 0x3002]"

text \<open>\<^verbatim>\<open>interface AudioState\<close> and \<^verbatim>\<open>interface ProcessingState\<close> of \<^verbatim>\<open>types.ts\<close>.\<close>

type_synonym object_url = nat

record AudioState =
  "file" :: "blob option"
  url :: "object_url option"
  name :: jsstring

record ProcessingState =
  isProcessing :: bool
  progress :: jsstring
  error :: "jsstring option"

text \<open>
  The four \<^verbatim>\<open>useState\<close> cells of \<^verbatim>\<open>App\<close>, and what the handlers touch outside
  them: the object URLs created and not yet revoked (\<open>live_urls\<close>; \<open>next_url\<close> is the
  one \<^verbatim>\<open>URL.createObjectURL\<close> hands out next), and the calls of
  \<^verbatim>\<open>generateSubtitles\<close> that \<^verbatim>\<open>handleProcess\<close> awaits (\<open>in_flight\<close>).
  \<^verbatim>\<open>handleDownload\<close> creates an object URL of its own and revokes it before it
  returns; it changes none of these and is left out.
\<close>

record session =
  audioState :: AudioState
  srtContent :: jsstring
  processingState :: ProcessingState
  selectedMode :: TranslationMode
  live_urls :: "object_url list"
  next_url :: object_url
  in_flight :: "(blob \<times> TranslationMode) list"

definition initial :: session where
  "initial =
     \<lparr> audioState = \<lparr> file = None, url = None, name = [] \<rparr>,
       srtContent = [],
       processingState = \<lparr> isProcessing = False, progress = [], error = None \<rparr>,
       selectedMode = BILINGUAL_CN_EN,
       live_urls = [],
       next_url = 0,
       in_flight = [] \<rparr>"

subsection \<open>Handlers\<close>

text \<open>
  \<^verbatim>\<open>
  const handleAudioSelected = (file, name) => {
    const url = URL.createObjectURL(file);
    setAudioState({ file, url, name });
    setSrtContent(''); // Clear previous results
    setProcessingState({ isProcessing: false, progress: '', error: null });
  };
  \<close>
\<close>

definition handleAudioSelected :: "blob \<Rightarrow> jsstring \<Rightarrow> session \<Rightarrow> session" where
  "handleAudioSelected f n s =
     s \<lparr> audioState := \<lparr> file = Some f, url = Some (next_url s), name = n \<rparr>,
         srtContent := [],
         processingState := \<lparr> isProcessing = False, progress = [], error = None \<rparr>,
         live_urls := next_url s # live_urls s,
         next_url := Suc (next_url s) \<rparr>"

text \<open>
  \<^verbatim>\<open>
  const clearAudio = () => {
    if (audioState.url) URL.revokeObjectURL(audioState.url);
    setAudioState({ file: null, url: null, name: '' });
    setSrtContent('');
    setProcessingState({ isProcessing: false, progress: '', error: null });
  };
  \<close>
\<close>

definition clearAudio :: "session \<Rightarrow> session" where
  "clearAudio s =
     s \<lparr> audioState := \<lparr> file = None, url = None, name = [] \<rparr>,
         srtContent := [],
         processingState := \<lparr> isProcessing = False, progress = [], error = None \<rparr>,
         live_urls := (case url (audioState s) of
                         Some u \<Rightarrow> removeAll u (live_urls s)
                       | None \<Rightarrow> live_urls s) \<rparr>"

text \<open>
  \<^verbatim>\<open>handleProcess\<close> up to its \<^verbatim>\<open>await\<close>: the guard on the file, the processing
  state, and the call of \<^verbatim>\<open>generateSubtitles(audioState.file, selectedMode)\<close>.
\<close>

definition handleProcess_call :: "session \<Rightarrow> session" where
  "handleProcess_call s =
     (case file (audioState s) of
        None \<Rightarrow> s
      | Some f \<Rightarrow>
          s \<lparr> processingState :=
                \<lparr> isProcessing = True, progress = msgUploading, error = None \<rparr>,
              in_flight := in_flight s @ [(f, selectedMode s)] \<rparr>)"

text \<open>
  \<^verbatim>\<open>handleProcess\<close> from its \<^verbatim>\<open>await\<close> on, once the promise has settled:
  \<^verbatim>\<open>
    const result = await generateSubtitles(audioState.file, selectedMode);
    setSrtContent(result);
    setProcessingState({ isProcessing: false, progress: <done>, error: null });
  } catch (err: any) {
    setProcessingState({ isProcessing: false, progress: '',
                         error: err.message || <retry message> });
  }
  \<close>
\<close>

definition handleProcess_settled :: "jsstring + jsstring \<Rightarrow> session \<Rightarrow> session" where
  "handleProcess_settled outcome s =
     (case outcome of
        Inr result \<Rightarrow>
          s \<lparr> srtContent := result,
              processingState := \<lparr> isProcessing = False, progress = msgDone, error = None \<rparr> \<rparr>
      | Inl message \<Rightarrow>
          s \<lparr> processingState :=
                \<lparr> isProcessing = False, progress = [],
                  error = Some (if message = [] then msgRetry else message) \<rparr> \<rparr>)"

subsection \<open>What is rendered, and the events\<close>

text \<open>
  \<^verbatim>\<open>{audioState.file && !processingState.isProcessing && !srtContent && (...)}\<close>: the
  section with the mode selector and the start button.
\<close>

definition controls_rendered :: "session \<Rightarrow> bool" where
  "controls_rendered s \<longleftrightarrow>
     file (audioState s) \<noteq> None \<and> \<not> isProcessing (processingState s) \<and> srtContent s = []"

text \<open>\<^verbatim>\<open>{processingState.error && (...)}\<close>: the error box with the retry button.\<close>

definition retry_rendered :: "session \<Rightarrow> bool" where
  "retry_rendered s \<longleftrightarrow>
     (case error (processingState s) of None \<Rightarrow> False | Some e \<Rightarrow> e \<noteq> [])"

text \<open>\<^verbatim>\<open>{srtContent && (...)}\<close>: the result area.\<close>

definition result_rendered :: "session \<Rightarrow> bool" where
  "result_rendered s \<longleftrightarrow> srtContent s \<noteq> []"

text \<open>
  What can happen to the session. A click reaches its handler only while its button is
  rendered. \<^verbatim>\<open>AudioInput\<close> renders the clear button while \<^verbatim>\<open>currentFile\<close> (the
  name) is non-empty; it calls \<^verbatim>\<open>onAudioSelected\<close> from the file input and from the
  recorder's \<^verbatim>\<open>onstop\<close>, which runs when the recorder stops, whatever is rendered.
  \<open>Settled i outcome\<close>: the \<open>i\<close>-th awaited call settles.
\<close>

datatype event =
    AudioSelected blob jsstring
  | ClickClear
  | SelectMode TranslationMode
  | ClickStart
  | ClickRetry
  | ClickClearResult
  | Settled nat "jsstring + jsstring"

fun step :: "event \<Rightarrow> session \<Rightarrow> session" where
  "step (AudioSelected f n) s = handleAudioSelected f n s"
| "step ClickClear s = (if name (audioState s) \<noteq> [] then clearAudio s else s)"
| "step (SelectMode m) s = (if controls_rendered s then s \<lparr> selectedMode := m \<rparr> else s)"
| "step ClickStart s = (if controls_rendered s then handleProcess_call s else s)"
| "step ClickRetry s = (if retry_rendered s then handleProcess_call s else s)"
| "step ClickClearResult s = (if result_rendered s then s \<lparr> srtContent := [] \<rparr> else s)"
| "step (Settled i outcome) s =
     (if i < length (in_flight s)
      then handleProcess_settled outcome
             (s \<lparr> in_flight := take i (in_flight s) @ drop (Suc i) (in_flight s) \<rparr>)
      else s)"

definition run :: "event list \<Rightarrow> session \<Rightarrow> session" where
  "run evs s = fold step evs s"

text \<open>The states of the controller, read off the session as the page renders it.\<close>

datatype phase = Idle | Ready | Processing | Done | Failed

definition phase_of :: "session \<Rightarrow> phase" where
  "phase_of s =
     (if isProcessing (processingState s) then Processing
      else if error (processingState s) \<noteq> None then Failed
      else if srtContent s \<noteq> [] then Done
      else if file (audioState s) \<noteq> None then Ready
      else Idle)"

section \<open>Notions used in the statements\<close>

text \<open>The bare fence marker, three backticks.\<close>

definition fence :: jsstring where
  "fence = [0x60, 0x60, 0x60]"




text \<open>
  An anchor of the repair pass, as a set of strings: one or more digits, any number of
  white-space code units, a line feed, and two digits, a colon, two digits, a colon, two
  digits. \<open>anchor_at t i\<close>: an anchor starts at position \<open>i\<close> of \<open>t\<close>.
\<close>

definition is_anchor :: "jsstring \<Rightarrow> bool" where
  "is_anchor a \<longleftrightarrow>
     (\<exists>ds ws h1 h2 m1 m2 s1 s2.
        a = ds @ ws @ [0x0A, h1, h2, 0x3A, m1, m2, 0x3A, s1, s2] \<and>
        ds \<noteq> [] \<and> list_all is_digit ds \<and> list_all is_space ws \<and>
        is_digit h1 \<and> is_digit h2 \<and> is_digit m1 \<and> is_digit m2 \<and>
        is_digit s1 \<and> is_digit s2)"

definition anchor_at :: "jsstring \<Rightarrow> nat \<Rightarrow> bool" where
  "anchor_at t i \<longleftrightarrow> (\<exists>a. is_anchor a \<and> prefix a (drop i t))"

text \<open>
  The anchor in the specification's words, "digits, newline, HH:MM:SS": the line feed
  stands directly behind the digits. \<open>strict_match_index\<close> is the leftmost position
  of such an anchor.
\<close>

fun strict_anchor_here :: "jsstring \<Rightarrow> bool" where
  "strict_anchor_here [] = False"
| "strict_anchor_here (c # cs) =
     (is_digit c \<and>
      (strict_anchor_here cs \<or>
       (case cs of [] \<Rightarrow> False | n # r \<Rightarrow> n = 0x0A \<and> timestamp_here r)))"

fun strict_match_index :: "jsstring \<Rightarrow> nat option" where
  "strict_match_index [] = None"
| "strict_match_index (c # cs) =
     (if strict_anchor_here (c # cs) then Some 0
      else map_option Suc (strict_match_index cs))"




text \<open>
  The timing line of a subtitle cue, \<^verbatim>\<open>HH:MM:SS,mmm --> HH:MM:SS,mmm\<close>, which every
  cue has and which marks a worked example in an instruction.
\<close>

fun timecode_here :: "jsstring \<Rightarrow> bool" where
  "timecode_here (h1 # h2 # c1 # m1 # m2 # c2 # s1 # s2 # k # f1 # f2 # f3 # _) =
     (is_digit h1 \<and> is_digit h2 \<and> c1 = 0x3A \<and> is_digit m1 \<and> is_digit m2 \<and> c2 = 0x3A \<and>
      is_digit s1 \<and> is_digit s2 \<and> k = 0x2C \<and> is_digit f1 \<and> is_digit f2 \<and> is_digit f3)"
| "timecode_here _ = False"

definition cue_timing_here :: "jsstring \<Rightarrow> bool" where
  "cue_timing_here s \<longleftrightarrow>
     timecode_here s \<and> prefix (ascii '' --> '') (drop 12 s) \<and> timecode_here (drop 17 s)"

fun has_cue_timing :: "jsstring \<Rightarrow> bool" where
  "has_cue_timing [] = False"
| "has_cue_timing (c # cs) = (cue_timing_here (c # cs) \<or> has_cue_timing cs)"

text \<open>
  The lines of \<^verbatim>\<open>commonRequirements\<close>, each as the source has it between the
  indentation and the line end: the heading and the constraints 1 to 6.
\<close>

definition task_heading :: jsstring where
  "task_heading =
     [0x4EFB, 0x52A1] @ ascii '':''"

definition requirement_1 :: jsstring where
  "requirement_1 =
     ascii ''1. '' @ [0x4ED4, 0x7EC6, 0x8046, 0x542C, 0x97F3, 0x9891, 0x5185, 0x5BB9, 0x3002]"

definition requirement_2 :: jsstring where
  "requirement_2 =
     ascii ''2. '' @ [0x751F, 0x6210, 0x7B26, 0x5408, 0x6807, 0x51C6] @
     ascii '' SubRip (.srt) '' @ [0x683C, 0x5F0F, 0x7684, 0x5B57, 0x5E55, 0x3002]"

definition requirement_3 :: jsstring where
  "requirement_3 =
     ascii ''3. '' @ [0x786E, 0x4FDD, 0x65F6, 0x95F4, 0x8F74, 0x6781, 0x5176, 0x7CBE,
      0x51C6] @ ascii '' ('' @ [0x683C, 0x5F0F] @ ascii '': HH:MM:SS,mmm)'' @ [0x3002]"

definition requirement_4 :: jsstring where
  "requirement_4 =
     ascii ''4. **'' @ [0x7EDD, 0x5BF9, 0x4E0D, 0x8981] @ ascii ''**'' @ [0x5305, 0x542B,
      0x4EFB, 0x4F55] @ ascii '' Markdown '' @ [0x4EE3, 0x7801, 0x5757, 0x683C, 0x5F0F,
      0xFF08, 0x4F8B, 0x5982, 0x4E0D, 0x8981, 0x5199] @ ascii '' ```srt '' @ [0x6216] @
     ascii '' ```'' @ [0xFF09, 0x3002, 0x76F4, 0x63A5, 0x8F93, 0x51FA, 0x7EAF, 0x6587,
      0x672C, 0x5185, 0x5BB9, 0x3002]"

definition requirement_5 :: jsstring where
  "requirement_5 =
     ascii ''5. **'' @ [0x7EDD, 0x5BF9, 0x4E0D, 0x8981] @ ascii ''**'' @ [0x5728] @
     ascii '' SRT '' @ [0x5185, 0x5BB9, 0x524D, 0x540E, 0x6DFB, 0x52A0, 0x4EFB, 0x4F55,
      0x95F2, 0x804A, 0x3001, 0x89E3, 0x91CA, 0x6216, 0x524D, 0x8A00, 0x3002]"

definition requirement_6 :: jsstring where
  "requirement_6 =
     ascii ''6. '' @ [0x6839, 0x636E, 0x8BED, 0x97F3, 0x505C, 0x987F, 0x81EA, 0x7136, 0x6362,
      0x884C, 0x3002]"

section \<open>Properties of the clean-up\<close>

subsection \<open>Searching and trimming\<close>

lemma js_includes_sublist: "js_includes s pat \<longleftrightarrow> sublist pat s"
  by (induction s) (auto simp: sublist_Cons_right)

lemma trim_prefix: "prefix (trim s) (dropWhile is_space s)"
proof -
  have "suffix (dropWhile is_space (rev (dropWhile is_space s))) (rev (dropWhile is_space s))"
    by (rule suffix_dropWhile)
  then show ?thesis by (simp add: trim_def suffix_to_prefix)
qed

lemma sublist_trim: "sublist (trim s) s"
proof -
  have "sublist (trim s) (dropWhile is_space s)"
    using trim_prefix by (rule prefix_imp_sublist)
  moreover have "sublist (dropWhile is_space s) s" by simp
  ultimately show ?thesis by (rule sublist_order.order.trans)
qed

lemma trim_keeps_absent: "\<not> js_includes s pat \<Longrightarrow> \<not> js_includes (trim s) pat"
  using sublist_trim sublist_order.order.trans by (auto simp: js_includes_sublist)

lemma trim_last: "trim s \<noteq> [] \<Longrightarrow> \<not> is_space (last (trim s))"
  by (simp add: trim_def last_rev hd_dropWhile)

lemma trim_head: "trim s \<noteq> [] \<Longrightarrow> \<not> is_space (hd (trim s))"
proof -
  assume ne: "trim s \<noteq> []"
  from trim_prefix obtain r where d: "dropWhile is_space s = trim s @ r"
    by (auto simp: prefix_def)
  with ne have "hd (trim s) = hd (dropWhile is_space s)" by simp
  moreover from d ne have "dropWhile is_space s \<noteq> []" by auto
  ultimately show ?thesis by (simp add: hd_dropWhile)
qed

lemma trim_idem: "trim (trim s) = trim s"
proof (cases "trim s = []")
  case True
  have "trim [] = []" by (simp add: trim_def)
  with True show ?thesis by simp
next
  case False
  from False have h: "dropWhile is_space (trim s) = trim s"
    by (simp add: dropWhile_eq_self_iff trim_head)
  have "rev (trim s) \<noteq> []" using False by simp
  moreover have "hd (rev (trim s)) = last (trim s)" using False by (simp add: hd_rev)
  ultimately have "dropWhile is_space (rev (trim s)) = rev (trim s)"
    using trim_last[OF False] by (simp add: dropWhile_eq_self_iff)
  then have "rev (dropWhile is_space (rev (trim s))) = trim s" by simp
  with h show ?thesis by (simp add: trim_def[of "trim s"])
qed

subsection \<open>Fence removal\<close>

lemma fence_here_prefix: "fence_here s \<longleftrightarrow> prefix fence s"
  by (cases s rule: fence_here.cases) (auto simp: fence_def)

lemma fence_srt_here_fence: "fence_srt_here s \<Longrightarrow> fence_here s"
  by (cases s rule: fence_srt_here.cases) auto

text \<open>Backticks at the head of the output stood at the head of the input.\<close>

lemma strip_fences_head1: "strip_fences t = 0x60 # r \<Longrightarrow> \<exists>t'. t = 0x60 # t'"
  by (induction t rule: strip_fences.induct)
     (auto simp: fence_here_prefix fence_def split: if_splits)

lemma strip_fences_head2:
  "strip_fences t = 0x60 # 0x60 # r \<Longrightarrow> \<exists>t'. t = 0x60 # 0x60 # t'"
proof (induction t rule: strip_fences.induct)
  case 1
  then show ?case by simp
next
  case (2 c cs)
  show ?case
  proof (cases "fence_here (c # cs)")
    case True
    then show ?thesis by (cases cs) (auto simp: fence_here_prefix fence_def)
  next
    case False
    with 2(3) have "c = 0x60" and "strip_fences cs = 0x60 # r" by auto
    with strip_fences_head1 show ?thesis by blast
  qed
qed

lemma strip_fences_no_fence_here: "\<not> fence_here (strip_fences s)"
proof (induction s rule: strip_fences.induct)
  case 1
  then show ?case by simp
next
  case (2 c cs)
  show ?case
  proof (cases "fence_here (c # cs)")
    case True
    with 2 show ?thesis by simp
  next
    case False
    show ?thesis
    proof
      assume "fence_here (strip_fences (c # cs))"
      with False have "prefix fence (c # strip_fences cs)" by (simp add: fence_here_prefix)
      then obtain r where "c = 0x60" and "strip_fences cs = 0x60 # 0x60 # r"
        by (auto simp: fence_def prefix_def)
      with strip_fences_head2 obtain t' where "cs = 0x60 # 0x60 # t'" by blast
      with \<open>c = 0x60\<close> False show False by simp
    qed
  qed
qed

lemma strip_fences_clean: "\<not> js_includes (strip_fences s) fence"
proof (induction s rule: strip_fences.induct)
  case 1
  then show ?case by (simp add: fence_def)
next
  case (2 c cs)
  show ?case
  proof (cases "fence_here (c # cs)")
    case True
    with 2 show ?thesis by simp
  next
    case False
    have "\<not> prefix fence (strip_fences (c # cs))"
      using strip_fences_no_fence_here[of "c # cs"] by (simp add: fence_here_prefix)
    with False 2 show ?thesis by simp
  qed
qed

lemma strip_fences_id: "\<not> js_includes s fence \<Longrightarrow> strip_fences s = s"
  by (induction s rule: strip_fences.induct) (auto simp: fence_here_prefix)

lemma strip_srt_fences_id: "\<not> js_includes s fence \<Longrightarrow> strip_srt_fences s = s"
proof (induction s rule: strip_srt_fences.induct)
  case 1
  then show ?case by simp
next
  case (2 c cs)
  from 2(3) have "\<not> fence_here (c # cs)" and "\<not> js_includes cs fence"
    by (auto simp: fence_here_prefix)
  with 2 fence_srt_here_fence show ?case by auto
qed






lemma normalize_text_clean: "\<not> js_includes (normalize_text s) fence"
  unfolding normalize_text_def by (rule trim_keeps_absent) (rule strip_fences_clean)

lemma normalize_text_no_fence: "\<not> js_includes s fence \<Longrightarrow> normalize_text s = trim s"
  by (simp add: normalize_text_def strip_srt_fences_id strip_fences_id)


text \<open>
  Claim C7. Normalization is idempotent: for every string, removing the fences and
  trimming a second time gives what the first time gave.
\<close>

theorem normalize_text_idempotent: "normalize_text (normalize_text s) = normalize_text s"
proof -
  have "normalize_text (normalize_text s) = trim (normalize_text s)"
    using normalize_text_clean by (rule normalize_text_no_fence)
  also have "\<dots> = normalize_text s" by (simp add: normalize_text_def trim_idem)
  finally show ?thesis .
qed
























subsection \<open>The repair pass\<close>

lemma timestamp_here_iff:
  "timestamp_here s \<longleftrightarrow>
     (\<exists>h1 h2 m1 m2 s1 s2 r. s = [h1, h2, 0x3A, m1, m2, 0x3A, s1, s2] @ r \<and>
        is_digit h1 \<and> is_digit h2 \<and> is_digit m1 \<and> is_digit m2 \<and> is_digit s1 \<and> is_digit s2)"
  by (cases s rule: timestamp_here.cases) auto

lemma spaces_newline_here_iff:
  "spaces_newline_here s \<longleftrightarrow>
     (\<exists>ws r. list_all is_space ws \<and> s = ws @ 0x0A # r \<and> timestamp_here r)"
proof
  show "\<exists>ws r. list_all is_space ws \<and> s = ws @ 0x0A # r \<and> timestamp_here r"
    if "spaces_newline_here s"
    using that
  proof (induction s)
    case Nil
    then show ?case by simp
  next
    case (Cons c cs)
    from Cons.prems
    consider "is_space c" "spaces_newline_here cs" | "c = 0x0A" "timestamp_here cs"
      by auto
    then show ?case
    proof cases
      case 1
      with Cons.IH obtain ws r
        where "list_all is_space ws" "cs = ws @ 0x0A # r" "timestamp_here r"
        by blast
      with 1 have
        "list_all is_space (c # ws) \<and> c # cs = (c # ws) @ 0x0A # r \<and> timestamp_here r"
        by simp
      then show ?thesis by blast
    next
      case 2
      then have "list_all is_space [] \<and> c # cs = [] @ 0x0A # cs \<and> timestamp_here cs"
        by simp
      then show ?thesis by blast
    qed
  qed
next
  assume "\<exists>ws r. list_all is_space ws \<and> s = ws @ 0x0A # r \<and> timestamp_here r"
  then obtain ws r where "list_all is_space ws" "s = ws @ 0x0A # r" "timestamp_here r"
    by blast
  then show "spaces_newline_here s"
    by (induction ws arbitrary: s) auto
qed

lemma anchor_here_iff:
  "anchor_here s \<longleftrightarrow>
     (\<exists>ds r. ds \<noteq> [] \<and> list_all is_digit ds \<and> s = ds @ r \<and> spaces_newline_here r)"
proof
  show "\<exists>ds r. ds \<noteq> [] \<and> list_all is_digit ds \<and> s = ds @ r \<and> spaces_newline_here r"
    if "anchor_here s"
    using that
  proof (induction s)
    case Nil
    then show ?case by simp
  next
    case (Cons c cs)
    from Cons.prems have d: "is_digit c" by simp
    from Cons.prems consider "anchor_here cs" | "spaces_newline_here cs" by auto
    then show ?case
    proof cases
      case 1
      with Cons.IH obtain ds r
        where "list_all is_digit ds" "cs = ds @ r" "spaces_newline_here r"
        by blast
      with d have "c # ds \<noteq> [] \<and> list_all is_digit (c # ds) \<and> c # cs = (c # ds) @ r \<and>
        spaces_newline_here r"
        by simp
      then show ?thesis by blast
    next
      case 2
      with d have "[c] \<noteq> [] \<and> list_all is_digit [c] \<and> c # cs = [c] @ cs \<and>
        spaces_newline_here cs"
        by simp
      then show ?thesis by blast
    qed
  qed
next
  assume "\<exists>ds r. ds \<noteq> [] \<and> list_all is_digit ds \<and> s = ds @ r \<and> spaces_newline_here r"
  then obtain ds r
    where "ds \<noteq> []" "list_all is_digit ds" "s = ds @ r" "spaces_newline_here r"
    by blast
  then show "anchor_here s"
  proof (induction ds arbitrary: s)
    case Nil
    then show ?case by simp
  next
    case (Cons d ds)
    then show ?case by (cases ds) auto
  qed
qed

text \<open>The matcher accepts exactly the strings that begin with an anchor.\<close>

lemma anchor_here_is_anchor: "anchor_here s \<longleftrightarrow> (\<exists>a. is_anchor a \<and> prefix a s)"
proof
  assume "anchor_here s"
  then obtain ds r where ds: "ds \<noteq> []" "list_all is_digit ds" and s: "s = ds @ r"
    and "spaces_newline_here r"
    by (auto simp: anchor_here_iff)
  then obtain ws r' where ws: "list_all is_space ws" and r: "r = ws @ 0x0A # r'"
    and "timestamp_here r'"
    by (auto simp: spaces_newline_here_iff)
  then obtain h1 h2 m1 m2 s1 s2 r''
    where r': "r' = [h1, h2, 0x3A, m1, m2, 0x3A, s1, s2] @ r''"
    and dg: "is_digit h1" "is_digit h2" "is_digit m1" "is_digit m2" "is_digit s1" "is_digit s2"
    by (auto simp: timestamp_here_iff)
  let ?a = "ds @ ws @ [0x0A, h1, h2, 0x3A, m1, m2, 0x3A, s1, s2]"
  have "is_anchor ?a" unfolding is_anchor_def using ds ws dg by blast
  moreover have "s = ?a @ r''" using s r r' by simp
  then have "prefix ?a s" unfolding prefix_def by blast
  ultimately show "\<exists>a. is_anchor a \<and> prefix a s" by blast
next
  assume "\<exists>a. is_anchor a \<and> prefix a s"
  then obtain a r where "is_anchor a" and s: "s = a @ r" by (auto simp: prefix_def)
  then obtain ds ws h1 h2 m1 m2 s1 s2 where
    a: "a = ds @ ws @ [0x0A, h1, h2, 0x3A, m1, m2, 0x3A, s1, s2]"
    and ds: "ds \<noteq> []" "list_all is_digit ds" and ws: "list_all is_space ws"
    and dg: "is_digit h1" "is_digit h2" "is_digit m1" "is_digit m2" "is_digit s1" "is_digit s2"
    unfolding is_anchor_def by blast
  have "timestamp_here ([h1, h2, 0x3A, m1, m2, 0x3A, s1, s2] @ r)" using dg by simp
  with ws have "spaces_newline_here (ws @ 0x0A # [h1, h2, 0x3A, m1, m2, 0x3A, s1, s2] @ r)"
    unfolding spaces_newline_here_iff by blast
  with ds have "anchor_here (ds @ ws @ 0x0A # [h1, h2, 0x3A, m1, m2, 0x3A, s1, s2] @ r)"
    unfolding anchor_here_iff by blast
  with a s show "anchor_here s" by simp
qed

lemma anchor_at_iff: "anchor_at t i \<longleftrightarrow> anchor_here (drop i t)"
  by (simp add: anchor_at_def anchor_here_is_anchor)

lemma match_index_Some:
  "match_index t = Some i \<longleftrightarrow>
     anchor_here (drop i t) \<and> (\<forall>j<i. \<not> anchor_here (drop j t))"
proof (induction t arbitrary: i)
  case Nil
  then show ?case by simp
next
  case (Cons c cs)
  show ?case
  proof (cases "anchor_here (c # cs)")
    case True
    then show ?thesis by (cases i) auto
  next
    case False
    show ?thesis
    proof (cases i)
      case 0
      with False show ?thesis by simp
    next
      case (Suc k)
      have "(\<forall>j<Suc k. \<not> anchor_here (drop j (c # cs))) \<longleftrightarrow>
            (\<forall>j<k. \<not> anchor_here (drop j cs))"
        using False by (auto simp: less_Suc_eq_0_disj)
      with False Suc Cons.IH[of k] show ?thesis by auto
    qed
  qed
qed

lemma match_index_None: "match_index t = None \<longleftrightarrow> (\<forall>i. \<not> anchor_here (drop i t))"
proof (induction t)
  case Nil
  then show ?case by simp
next
  case (Cons c cs)
  have "(\<forall>i. \<not> anchor_here (drop i (c # cs))) \<longleftrightarrow>
        \<not> anchor_here (c # cs) \<and> (\<forall>i. \<not> anchor_here (drop i cs))"
  proof
    assume h: "\<forall>i. \<not> anchor_here (drop i (c # cs))"
    from h[rule_format, of 0] have "\<not> anchor_here (c # cs)" by simp
    moreover have "\<not> anchor_here (drop i cs)" for i
      using h[rule_format, of "Suc i"] by simp
    ultimately show "\<not> anchor_here (c # cs) \<and> (\<forall>i. \<not> anchor_here (drop i cs))"
      by blast
  next
    assume h: "\<not> anchor_here (c # cs) \<and> (\<forall>i. \<not> anchor_here (drop i cs))"
    show "\<forall>i. \<not> anchor_here (drop i (c # cs))"
    proof
      fix i
      show "\<not> anchor_here (drop i (c # cs))" using h by (cases i) auto
    qed
  qed
  with Cons.IH show ?case by auto
qed

lemma suffix_repair: "suffix (repair t) t"
  by (simp add: repair_def suffix_drop split: option.split)

text \<open>
  Claim C2, as the code has it. The repair pass is a total function. A text that begins
  with a decimal digit is returned unchanged. Otherwise, if an anchor starts at position
  \<open>i\<close> and at no earlier position, the result is the text from position \<open>i\<close> on, and if
  no anchor starts anywhere the text is returned unchanged. An anchor is: one or more
  digits, any number of white-space code units (blanks, a carriage return, further line
  feeds), a line feed, and a time \<^verbatim>\<open>HH:MM:SS\<close> of two digits each.
\<close>

theorem repair_cuts_at_first_anchor:
  "(starts_with_digit t \<longrightarrow> repair t = t) \<and>
   (\<not> starts_with_digit t \<and> anchor_at t i \<and> (\<forall>j<i. \<not> anchor_at t j) \<longrightarrow>
      repair t = drop i t) \<and>
   (\<not> starts_with_digit t \<and> (\<forall>k. \<not> anchor_at t k) \<longrightarrow> repair t = t)"
proof (intro conjI impI)
  assume "starts_with_digit t"
  then show "repair t = t" by (simp add: repair_def)
next
  assume "\<not> starts_with_digit t \<and> anchor_at t i \<and> (\<forall>j<i. \<not> anchor_at t j)"
  then have "\<not> starts_with_digit t" and "match_index t = Some i"
    by (simp_all add: match_index_Some anchor_at_iff)
  then show "repair t = drop i t" by (simp add: repair_def)
next
  assume "\<not> starts_with_digit t \<and> (\<forall>k. \<not> anchor_at t k)"
  then have "\<not> starts_with_digit t" and "match_index t = None"
    by (simp_all add: match_index_None anchor_at_iff)
  then show "repair t = t" by (simp add: repair_def)
qed

theorem repair_cuts_at_first_anchor_witness:
  "repair (ascii ''1'' @ [0x0A] @ ascii ''00:00:01,000 --> 00:00:02,000'' @ [0x0A] @ ascii ''Hi'') =
     ascii ''1'' @ [0x0A] @ ascii ''00:00:01,000 --> 00:00:02,000'' @ [0x0A] @ ascii ''Hi'' \<and>
   repair (ascii ''Sure, here you go:'' @ [0x0A] @ ascii ''1'' @ [0x0A] @
       ascii ''00:00:01,000 --> 00:00:02,000'' @ [0x0A] @ ascii ''Hi'') =
     ascii ''1'' @ [0x0A] @ ascii ''00:00:01,000 --> 00:00:02,000'' @ [0x0A] @ ascii ''Hi'' \<and>
   repair (ascii ''no timestamps here'') = ascii ''no timestamps here''"
proof -
  let ?cue = "ascii ''1'' @ [0x0A] @ ascii ''00:00:01,000 --> 00:00:02,000'' @ [0x0A] @ ascii ''Hi''"
  let ?chatty = "ascii ''Sure, here you go:'' @ [0x0A] @ ascii ''1'' @ [0x0A] @
       ascii ''00:00:01,000 --> 00:00:02,000'' @ [0x0A] @ ascii ''Hi''"
  let ?plain = "ascii ''no timestamps here''"
  have "starts_with_digit ?cue" by code_simp
  with repair_cuts_at_first_anchor[of ?cue 0] have first: "repair ?cue = ?cue" by blast
  have "match_index ?chatty = Some 19" by code_simp
  then have "anchor_at ?chatty 19" and "\<forall>j<19. \<not> anchor_at ?chatty j"
    unfolding match_index_Some anchor_at_iff by blast+
  moreover have "\<not> starts_with_digit ?chatty" by code_simp
  ultimately have "repair ?chatty = drop 19 ?chatty"
    using repair_cuts_at_first_anchor[of ?chatty 19] by blast
  moreover have "drop 19 ?chatty = ?cue" by code_simp
  ultimately have second: "repair ?chatty = ?cue" by simp
  have "match_index ?plain = None" by code_simp
  then have "\<forall>k. \<not> anchor_at ?plain k"
    unfolding match_index_None anchor_at_iff by blast
  moreover have "\<not> starts_with_digit ?plain" by code_simp
  ultimately have third: "repair ?plain = ?plain"
    using repair_cuts_at_first_anchor[of ?plain 0] by blast
  from first second third show ?thesis by blast
qed

text \<open>
  Claim C2 as it is worded fails where white space stands between the index and the
  line feed before the time. In the first text an empty line follows the index, in the
  second the lines end in CRLF. Neither holds "digits, newline, HH:MM:SS" (no digit is
  directly followed by a line feed and a time), and yet the pass cuts both, at
  positions 6 and 7.
\<close>

theorem repair_cuts_at_spaced_anchor:
  "\<not> starts_with_digit (ascii ''Here:'' @ [0x0A] @ ascii ''1'' @ [0x0A, 0x0A] @
      ascii ''00:00:01,000 --> 00:00:02,000'' @ [0x0A] @ ascii ''Hi'') \<and>
   strict_match_index (ascii ''Here:'' @ [0x0A] @ ascii ''1'' @ [0x0A, 0x0A] @
      ascii ''00:00:01,000 --> 00:00:02,000'' @ [0x0A] @ ascii ''Hi'') = None \<and>
   repair (ascii ''Here:'' @ [0x0A] @ ascii ''1'' @ [0x0A, 0x0A] @
      ascii ''00:00:01,000 --> 00:00:02,000'' @ [0x0A] @ ascii ''Hi'') =
     ascii ''1'' @ [0x0A, 0x0A] @ ascii ''00:00:01,000 --> 00:00:02,000'' @ [0x0A] @
     ascii ''Hi'' \<and>
   repair (ascii ''Here:'' @ [0x0A] @ ascii ''1'' @ [0x0A, 0x0A] @
      ascii ''00:00:01,000 --> 00:00:02,000'' @ [0x0A] @ ascii ''Hi'') \<noteq>
     ascii ''Here:'' @ [0x0A] @ ascii ''1'' @ [0x0A, 0x0A] @
      ascii ''00:00:01,000 --> 00:00:02,000'' @ [0x0A] @ ascii ''Hi'' \<and>
   \<not> starts_with_digit (ascii ''Here:'' @ [0x0D, 0x0A] @ ascii ''1'' @ [0x0D, 0x0A] @
      ascii ''00:00:01,000 --> 00:00:02,000'' @ [0x0D, 0x0A] @ ascii ''Hi'') \<and>
   strict_match_index (ascii ''Here:'' @ [0x0D, 0x0A] @ ascii ''1'' @ [0x0D, 0x0A] @
      ascii ''00:00:01,000 --> 00:00:02,000'' @ [0x0D, 0x0A] @ ascii ''Hi'') = None \<and>
   repair (ascii ''Here:'' @ [0x0D, 0x0A] @ ascii ''1'' @ [0x0D, 0x0A] @
      ascii ''00:00:01,000 --> 00:00:02,000'' @ [0x0D, 0x0A] @ ascii ''Hi'') =
     ascii ''1'' @ [0x0D, 0x0A] @ ascii ''00:00:01,000 --> 00:00:02,000'' @ [0x0D, 0x0A] @
     ascii ''Hi'' \<and>
   repair (ascii ''Here:'' @ [0x0D, 0x0A] @ ascii ''1'' @ [0x0D, 0x0A] @
      ascii ''00:00:01,000 --> 00:00:02,000'' @ [0x0D, 0x0A] @ ascii ''Hi'') \<noteq>
     ascii ''Here:'' @ [0x0D, 0x0A] @ ascii ''1'' @ [0x0D, 0x0A] @
      ascii ''00:00:01,000 --> 00:00:02,000'' @ [0x0D, 0x0A] @ ascii ''Hi''"
  by code_simp

section \<open>Properties of \<^verbatim>\<open>generateSubtitles\<close>\<close>

text \<open>
  Claim C1. For every audio source and translation mode, with no credential configured
  \<^verbatim>\<open>generateSubtitles\<close> is rejected with the configuration message, and nothing has
  happened before that: the file is not read and the model is not called.
\<close>

theorem missing_key_fails_first:
  "GEMINI_API_KEY p = [] \<Longrightarrow> generateSubtitles p audioFile mode = ([], Inl msgNoApiKey)"
  by (simp add: generateSubtitles_def)

theorem missing_key_fails_first_witness:
  "GEMINI_API_KEY
     \<lparr> GEMINI_API_KEY = [],
       readAsDataURL = (\<lambda>f. ascii ''data:audio/mpeg;base64,SUQz''),
       generateContent = (\<lambda>r. Response (Some (ascii ''1''))) \<rparr> = [] \<and>
   generateSubtitles
     \<lparr> GEMINI_API_KEY = [],
       readAsDataURL = (\<lambda>f. ascii ''data:audio/mpeg;base64,SUQz''),
       generateContent = (\<lambda>r. Response (Some (ascii ''1''))) \<rparr>
     \<lparr> blob_bytes = [0x49, 0x44, 0x33], blob_type = ascii ''audio/mpeg'' \<rparr>
     TO_ENGLISH = ([], Inl msgNoApiKey)"
  using missing_key_fails_first[of
      "\<lparr> GEMINI_API_KEY = [],
         readAsDataURL = (\<lambda>f. ascii ''data:audio/mpeg;base64,SUQz''),
         generateContent = (\<lambda>r. Response (Some (ascii ''1''))) \<rparr>"
      "\<lparr> blob_bytes = [0x49, 0x44, 0x33], blob_type = ascii ''audio/mpeg'' \<rparr>"
      TO_ENGLISH]
  by simp

text \<open>The message of the response check passes through the \<^verbatim>\<open>catch\<close> block as it is.\<close>

lemma catch_message_msgNoContent: "catch_message msgNoContent = msgNoContent"
  by code_simp

lemma model_called:
  assumes "ModelCall req \<in> set (fst (generateSubtitles p audioFile mode))"
  shows "snd (generateSubtitles p audioFile mode) =
     (case generateContent p req of
        Rejected message \<Rightarrow> Inl (catch_message message)
      | Response text \<Rightarrow>
          if falsy text then Inl (catch_message msgNoContent)
          else Inr (repair (normalize_text (the text))))"
proof (cases "GEMINI_API_KEY p = []")
  case True
  with assms show ?thesis by (simp add: generateSubtitles_def)
next
  case False
  with assms show ?thesis by (auto simp: generateSubtitles_def Let_def)
qed

text \<open>
  Claim C6. For every invocation, if the model's answer to the request that was sent
  has an empty or absent text, \<^verbatim>\<open>generateSubtitles\<close> is rejected with the
  empty-response message; it resolves to no document.
\<close>

theorem empty_response_fails:
  assumes "ModelCall req \<in> set (fst (generateSubtitles p audioFile mode))"
    and "generateContent p req = Response text"
    and "text = None \<or> text = Some []"
  shows "snd (generateSubtitles p audioFile mode) = Inl msgNoContent"
  using assms(2,3) model_called[OF assms(1)]
  by (auto simp: catch_message_msgNoContent)

theorem empty_response_fails_witness:
  "snd (generateSubtitles
     \<lparr> GEMINI_API_KEY = ascii ''key'',
       readAsDataURL = (\<lambda>f. ascii ''data:audio/mpeg;base64,SUQz''),
       generateContent = (\<lambda>r. Response (Some [])) \<rparr>
     \<lparr> blob_bytes = [0x49, 0x44, 0x33], blob_type = ascii ''audio/mpeg'' \<rparr>
     TRANSCRIPT_ONLY) = Inl msgNoContent \<and>
   snd (generateSubtitles
     \<lparr> GEMINI_API_KEY = ascii ''key'',
       readAsDataURL = (\<lambda>f. ascii ''data:audio/mpeg;base64,SUQz''),
       generateContent = (\<lambda>r. Response None) \<rparr>
     \<lparr> blob_bytes = [0x49, 0x44, 0x33], blob_type = ascii ''audio/mpeg'' \<rparr>
     TRANSCRIPT_ONLY) = Inl msgNoContent"
proof -
  let ?f = "\<lparr> blob_bytes = [0x49, 0x44, 0x33], blob_type = ascii ''audio/mpeg'' \<rparr>"
  let ?req = "\<lparr> model = ascii ''gemini-2.5-flash'',
      audioPart = fileToGenerativePart (\<lambda>f. ascii ''data:audio/mpeg;base64,SUQz'') ?f,
      textPart = promptText TRANSCRIPT_ONLY,
      config_systemInstruction = systemInstruction,
      config_temperature_tenths = 3 \<rparr>"
  let ?empty = "\<lparr> GEMINI_API_KEY = ascii ''key'',
       readAsDataURL = (\<lambda>f. ascii ''data:audio/mpeg;base64,SUQz''),
       generateContent = (\<lambda>r. Response (Some [])) \<rparr>"
  let ?absent = "\<lparr> GEMINI_API_KEY = ascii ''key'',
       readAsDataURL = (\<lambda>f. ascii ''data:audio/mpeg;base64,SUQz''),
       generateContent = (\<lambda>r. Response None) \<rparr>"
  have "ModelCall ?req \<in> set (fst (generateSubtitles ?empty ?f TRANSCRIPT_ONLY))"
    by (simp add: generateSubtitles_def ascii_def)
  moreover have "generateContent ?empty ?req = Response (Some [])" by simp
  ultimately have "snd (generateSubtitles ?empty ?f TRANSCRIPT_ONLY) = Inl msgNoContent"
    by (rule empty_response_fails) simp
  moreover
  have "ModelCall ?req \<in> set (fst (generateSubtitles ?absent ?f TRANSCRIPT_ONLY))"
    by (simp add: generateSubtitles_def ascii_def)
  moreover have "generateContent ?absent ?req = Response None" by simp
  ultimately show ?thesis
    using empty_response_fails[of ?req ?absent ?f TRANSCRIPT_ONLY None] by simp
qed

text \<open>
  Claim C10. For every non-empty text the model answers with, the string
  \<^verbatim>\<open>generateSubtitles\<close> resolves to is a suffix of the fence-stripped, trimmed
  text: the repair pass drops a prefix and changes nothing behind it.
\<close>

theorem result_is_suffix_of_normalized:
  assumes "ModelCall req \<in> set (fst (generateSubtitles p audioFile mode))"
    and "generateContent p req = Response (Some text)"
    and "text \<noteq> []"
  shows "\<exists>doc. snd (generateSubtitles p audioFile mode) = Inr doc \<and>
     suffix doc (normalize_text text)"
  using assms(2,3) model_called[OF assms(1)] suffix_repair[of "normalize_text text"]
  by simp

theorem result_is_suffix_of_normalized_witness:
  "snd (generateSubtitles
     \<lparr> GEMINI_API_KEY = ascii ''key'',
       readAsDataURL = (\<lambda>f. ascii ''data:audio/mpeg;base64,SUQz''),
       generateContent = (\<lambda>r. Response (Some
         (ascii ''```srt'' @ [0x0A] @ ascii ''Sure:'' @ [0x0A] @ ascii ''1'' @ [0x0A] @
          ascii ''00:00:01,000 --> 00:00:02,000'' @ [0x0A] @ ascii ''Hi'' @ [0x0A] @
          ascii ''```''))) \<rparr>
     \<lparr> blob_bytes = [0x49, 0x44, 0x33], blob_type = ascii ''audio/mpeg'' \<rparr>
     TO_CHINESE) =
     Inr (ascii ''1'' @ [0x0A] @ ascii ''00:00:01,000 --> 00:00:02,000'' @ [0x0A] @ ascii ''Hi'') \<and>
   suffix (ascii ''1'' @ [0x0A] @ ascii ''00:00:01,000 --> 00:00:02,000'' @ [0x0A] @ ascii ''Hi'')
     (normalize_text
         (ascii ''```srt'' @ [0x0A] @ ascii ''Sure:'' @ [0x0A] @ ascii ''1'' @ [0x0A] @
          ascii ''00:00:01,000 --> 00:00:02,000'' @ [0x0A] @ ascii ''Hi'' @ [0x0A] @
          ascii ''```''))"
proof -
  let ?f = "\<lparr> blob_bytes = [0x49, 0x44, 0x33], blob_type = ascii ''audio/mpeg'' \<rparr>"
  let ?text = "ascii ''```srt'' @ [0x0A] @ ascii ''Sure:'' @ [0x0A] @ ascii ''1'' @ [0x0A] @
          ascii ''00:00:01,000 --> 00:00:02,000'' @ [0x0A] @ ascii ''Hi'' @ [0x0A] @
          ascii ''```''"
  let ?doc = "ascii ''1'' @ [0x0A] @ ascii ''00:00:01,000 --> 00:00:02,000'' @ [0x0A] @ ascii ''Hi''"
  let ?p = "\<lparr> GEMINI_API_KEY = ascii ''key'',
       readAsDataURL = (\<lambda>f. ascii ''data:audio/mpeg;base64,SUQz''),
       generateContent = (\<lambda>r. Response (Some ?text)) \<rparr>"
  let ?req = "\<lparr> model = ascii ''gemini-2.5-flash'',
      audioPart = fileToGenerativePart (\<lambda>f. ascii ''data:audio/mpeg;base64,SUQz'') ?f,
      textPart = promptText TO_CHINESE,
      config_systemInstruction = systemInstruction,
      config_temperature_tenths = 3 \<rparr>"
  have call: "ModelCall ?req \<in> set (fst (generateSubtitles ?p ?f TO_CHINESE))"
    by (simp add: generateSubtitles_def ascii_def)
  have answer: "generateContent ?p ?req = Response (Some ?text)" by simp
  have nonempty: "?text \<noteq> []" by (simp add: ascii_def)
  from result_is_suffix_of_normalized[OF call answer nonempty]
  obtain doc where doc: "snd (generateSubtitles ?p ?f TO_CHINESE) = Inr doc"
    and suf: "suffix doc (normalize_text ?text)"
    by blast
  have "repair (normalize_text ?text) = ?doc" by code_simp
  with model_called[OF call] answer nonempty
  have "snd (generateSubtitles ?p ?f TO_CHINESE) = Inr ?doc" by simp
  with doc suf show ?thesis by simp
qed

subsection \<open>The instruction text\<close>

lemma example_only_bilingual:
  "has_cue_timing (specificInstruction m) \<longleftrightarrow> m = BILINGUAL_CN_EN"
  by (cases m; hypsubst_thin; code_simp)

lemma clause_is_item_7: "prefix (ascii ''7. '') (specificInstruction m)"
  by (cases m; hypsubst_thin; code_simp)

lemma one_clause: "js_includes (promptText m) (specificInstruction m') \<longleftrightarrow> m' = m"
  by (cases m; cases m'; hypsubst_thin; code_simp)

lemma common_ends_at_item_6:
  "js_includes commonRequirements (ascii ''6. '') \<and>
   \<not> js_includes commonRequirements (ascii ''7. '') \<and>
   \<not> has_cue_timing commonRequirements"
  by code_simp

text \<open>
  The common block, line by line: between its lines, before the first and behind the
  last stands white space only (a line feed and the indentation).
\<close>

lemma common_block_lines:
  "commonRequirements =
     ([0x0A] @ ascii ''    '') @ task_heading @
     ([0x0A] @ ascii ''    '') @ requirement_1 @
     ([0x0A] @ ascii ''    '') @ requirement_2 @
     ([0x0A] @ ascii ''    '') @ requirement_3 @
     ([0x0A] @ ascii ''    '') @ requirement_4 @
     ([0x0A] @ ascii ''    '') @ requirement_5 @
     ([0x0A] @ ascii ''    '') @ requirement_6 @
     ([0x0A] @ ascii ''  '')"
  by code_simp

lemma indentation_is_space:
  "list_all is_space ([0x0A] @ ascii ''    '')" "list_all is_space ([0x0A] @ ascii ''  '')"
  by code_simp+

lemma common_block_content:
  "\<exists>g0 g1 g2 g3 g4 g5 g6 g7.
     commonRequirements =
       g0 @ task_heading @ g1 @ requirement_1 @ g2 @ requirement_2 @ g3 @ requirement_3 @
       g4 @ requirement_4 @ g5 @ requirement_5 @ g6 @ requirement_6 @ g7 \<and>
     list_all is_space g0 \<and> list_all is_space g1 \<and> list_all is_space g2 \<and>
     list_all is_space g3 \<and> list_all is_space g4 \<and> list_all is_space g5 \<and>
     list_all is_space g6 \<and> list_all is_space g7"
  using common_block_lines indentation_is_space by blast

lemma common_block_texts:
  "js_includes commonRequirements (ascii ''SubRip (.srt)'') \<and>
   js_includes commonRequirements (ascii ''HH:MM:SS,mmm'') \<and>
   js_includes commonRequirements (ascii ''Markdown'') \<and>
   js_includes commonRequirements (ascii ''```srt'')"
  by code_simp

text \<open>
  Claim C3. For each of the four modes the instruction text is the common block, as it
  stands, a line feed, and the clause of that mode. The common block is the heading and
  the six constraints, word for word and in their order, with only white space between
  them: listen to the audio (1), SubRip output (2), times as \<^verbatim>\<open>HH:MM:SS,mmm\<close> (3),
  no Markdown fence (4), nothing before or after the SRT content (5), line breaks at
  pauses (6); it holds no item 7 and no example cue. The clause begins with
  \<^verbatim>\<open>7. \<close>; of the four clauses the text holds the one of its mode and no other;
  and the clause holds the timing line of an example cue exactly when the mode is the
  bilingual one.
\<close>

theorem promptText_common_plus_one_clause:
  "promptText m = commonRequirements @ [0x0A] @ specificInstruction m \<and>
   prefix commonRequirements (promptText m) \<and>
   suffix (specificInstruction m) (promptText m) \<and>
   (\<exists>g0 g1 g2 g3 g4 g5 g6 g7.
      commonRequirements =
        g0 @ task_heading @ g1 @ requirement_1 @ g2 @ requirement_2 @ g3 @ requirement_3 @
        g4 @ requirement_4 @ g5 @ requirement_5 @ g6 @ requirement_6 @ g7 \<and>
      list_all is_space g0 \<and> list_all is_space g1 \<and> list_all is_space g2 \<and>
      list_all is_space g3 \<and> list_all is_space g4 \<and> list_all is_space g5 \<and>
      list_all is_space g6 \<and> list_all is_space g7) \<and>
   js_includes (promptText m) (ascii ''SubRip (.srt)'') \<and>
   js_includes (promptText m) (ascii ''HH:MM:SS,mmm'') \<and>
   js_includes (promptText m) (ascii ''Markdown'') \<and>
   js_includes (promptText m) (ascii ''```srt'') \<and>
   prefix (ascii ''7. '') (specificInstruction m) \<and>
   \<not> js_includes commonRequirements (ascii ''7. '') \<and>
   \<not> has_cue_timing commonRequirements \<and>
   (js_includes (promptText m) (specificInstruction m') \<longleftrightarrow> m' = m) \<and>
   (has_cue_timing (specificInstruction m) \<longleftrightarrow> m = BILINGUAL_CN_EN)"
proof -
  have in_common: "js_includes (promptText m) p" if "js_includes commonRequirements p" for p
  proof -
    from that have "sublist p commonRequirements" by (simp add: js_includes_sublist)
    moreover have "sublist commonRequirements (promptText m)"
      by (simp add: promptText_def)
    ultimately have "sublist p (promptText m)" by (rule sublist_order.order.trans)
    then show ?thesis by (simp add: js_includes_sublist)
  qed
  from common_block_texts
  have "js_includes (promptText m) (ascii ''SubRip (.srt)'')"
    and "js_includes (promptText m) (ascii ''HH:MM:SS,mmm'')"
    and "js_includes (promptText m) (ascii ''Markdown'')"
    and "js_includes (promptText m) (ascii ''```srt'')"
    using in_common by blast+
  then show ?thesis
    using clause_is_item_7[of m] one_clause[of m m'] example_only_bilingual[of m]
      common_ends_at_item_6 common_block_content
    by (simp add: promptText_def suffix_def)
qed

section \<open>Properties of the session controller\<close>

lemmas handlers =
  handleAudioSelected_def clearAudio_def handleProcess_call_def handleProcess_settled_def
  controls_rendered_def retry_rendered_def result_rendered_def

text \<open>
  Every assignment of the processing state that sets \<^verbatim>\<open>isProcessing\<close> clears the
  error, so no step leads to a processing state that shows an error.
\<close>

lemma step_no_error_while_processing:
  assumes "isProcessing (processingState s) \<longrightarrow> error (processingState s) = None"
  shows "isProcessing (processingState (step e s)) \<longrightarrow>
     error (processingState (step e s)) = None"
  using assms by (cases e) (auto simp: handlers split: option.splits sum.splits)

lemma run_no_error_while_processing:
  assumes "isProcessing (processingState s) \<longrightarrow> error (processingState s) = None"
  shows "isProcessing (processingState (run evs s)) \<longrightarrow>
     error (processingState (run evs s)) = None"
  using assms unfolding run_def
proof (induction evs arbitrary: s)
  case Nil
  then show ?case by simp
next
  case (Cons e evs)
  from Cons.prems
  have "isProcessing (processingState (step e s)) \<longrightarrow>
     error (processingState (step e s)) = None"
    by (rule step_no_error_while_processing)
  from Cons.IH[OF this] show ?case by simp
qed

text \<open>
  Claim C4, as the code has it. Clearing the audio while a call is awaited puts the
  session into the idle state at once: no file, no document, not processing, no error.
  The awaited call is not withdrawn, and its answer is not discarded: when it settles
  with a text, \<^verbatim>\<open>handleProcess\<close> stores that text as the document of the session,
  which still has no file.
\<close>

theorem clear_while_processing:
  "isProcessing (processingState s) \<longrightarrow>
     phase_of (clearAudio s) = Idle \<and>
     file (audioState (clearAudio s)) = None \<and>
     srtContent (clearAudio s) = [] \<and>
     in_flight (clearAudio s) = in_flight s \<and>
     (\<forall>i r. i < length (in_flight s) \<longrightarrow>
        srtContent (step (Settled i (Inr r)) (clearAudio s)) = r \<and>
        file (audioState (step (Settled i (Inr r)) (clearAudio s))) = None)"
  by (simp add: handlers phase_of_def)

theorem clear_while_processing_witness:
  "isProcessing (processingState (run
     [AudioSelected \<lparr>blob_bytes = [0x49, 0x44, 0x33], blob_type = ascii ''audio/mpeg''\<rparr>
        (ascii ''a.mp3''),
      ClickStart] initial)) \<and>
   length (in_flight (run
     [AudioSelected \<lparr>blob_bytes = [0x49, 0x44, 0x33], blob_type = ascii ''audio/mpeg''\<rparr>
        (ascii ''a.mp3''),
      ClickStart] initial)) = 1 \<and>
   phase_of (clearAudio (run
     [AudioSelected \<lparr>blob_bytes = [0x49, 0x44, 0x33], blob_type = ascii ''audio/mpeg''\<rparr>
        (ascii ''a.mp3''),
      ClickStart] initial)) = Idle \<and>
   srtContent (step (Settled 0 (Inr (ascii ''1 Hi''))) (clearAudio (run
     [AudioSelected \<lparr>blob_bytes = [0x49, 0x44, 0x33], blob_type = ascii ''audio/mpeg''\<rparr>
        (ascii ''a.mp3''),
      ClickStart] initial))) = ascii ''1 Hi''"
proof -
  let ?s = "run
     [AudioSelected \<lparr>blob_bytes = [0x49, 0x44, 0x33], blob_type = ascii ''audio/mpeg''\<rparr>
        (ascii ''a.mp3''),
      ClickStart] initial"
  have p: "isProcessing (processingState ?s)"
    by (simp add: run_def initial_def handlers)
  have n: "length (in_flight ?s) = 1"
    by (simp add: run_def initial_def handlers)
  from clear_while_processing[of ?s] p
  have idle: "phase_of (clearAudio ?s) = Idle"
    and late: "\<forall>i r. i < length (in_flight ?s) \<longrightarrow>
        srtContent (step (Settled i (Inr r)) (clearAudio ?s)) = r \<and>
        file (audioState (step (Settled i (Inr r)) (clearAudio ?s))) = None"
    by blast+
  from n have "0 < length (in_flight ?s)" by simp
  with late
  have "srtContent (step (Settled 0 (Inr (ascii ''1 Hi''))) (clearAudio ?s)) = ascii ''1 Hi''"
    by blast
  with p n idle show ?thesis by blast
qed

text \<open>
  Claim C4 as it is worded fails: a file is selected, the start button clicked, the
  audio cleared (the session is idle), and then the awaited call settles with a text.
  The session then holds that text as its document, and no file.
\<close>

theorem late_response_sets_document:
  "phase_of (run
     [AudioSelected \<lparr>blob_bytes = [0x49, 0x44, 0x33], blob_type = ascii ''audio/mpeg''\<rparr>
        (ascii ''a.mp3''),
      ClickStart, ClickClear] initial) = Idle \<and>
   file (audioState (run
     [AudioSelected \<lparr>blob_bytes = [0x49, 0x44, 0x33], blob_type = ascii ''audio/mpeg''\<rparr>
        (ascii ''a.mp3''),
      ClickStart, ClickClear, Settled 0 (Inr (ascii ''1 Hi''))] initial)) = None \<and>
   srtContent (run
     [AudioSelected \<lparr>blob_bytes = [0x49, 0x44, 0x33], blob_type = ascii ''audio/mpeg''\<rparr>
        (ascii ''a.mp3''),
      ClickStart, ClickClear, Settled 0 (Inr (ascii ''1 Hi''))] initial) = ascii ''1 Hi'' \<and>
   result_rendered (run
     [AudioSelected \<lparr>blob_bytes = [0x49, 0x44, 0x33], blob_type = ascii ''audio/mpeg''\<rparr>
        (ascii ''a.mp3''),
      ClickStart, ClickClear, Settled 0 (Inr (ascii ''1 Hi''))] initial)"
  by (simp add: run_def initial_def handlers ascii_def phase_of_def)

text \<open>
  Claim C5, as the code has it. In every state the session can reach, while it is
  processing neither the start button nor the retry button is rendered, so a click to
  invoke changes nothing and issues no call. The guard is what the page renders;
  \<^verbatim>\<open>handleProcess\<close> itself checks only that a file is there. That more than one call
  is never awaited does not follow, and does not hold.
\<close>

theorem invoke_while_processing_is_noop:
  "isProcessing (processingState (run evs initial)) \<longrightarrow>
     \<not> controls_rendered (run evs initial) \<and> \<not> retry_rendered (run evs initial) \<and>
     step ClickStart (run evs initial) = run evs initial \<and>
     step ClickRetry (run evs initial) = run evs initial"
proof
  assume p: "isProcessing (processingState (run evs initial))"
  have "isProcessing (processingState initial) \<longrightarrow> error (processingState initial) = None"
    by (simp add: initial_def)
  from run_no_error_while_processing[OF this, of evs] p
  have "error (processingState (run evs initial)) = None" by simp
  with p show "\<not> controls_rendered (run evs initial) \<and> \<not> retry_rendered (run evs initial) \<and>
     step ClickStart (run evs initial) = run evs initial \<and>
     step ClickRetry (run evs initial) = run evs initial"
    by (simp add: controls_rendered_def retry_rendered_def)
qed

theorem invoke_while_processing_is_noop_witness:
  "isProcessing (processingState (run
     [AudioSelected \<lparr>blob_bytes = [0x49, 0x44, 0x33], blob_type = ascii ''audio/mpeg''\<rparr>
        (ascii ''a.mp3''),
      ClickStart] initial)) \<and>
   step ClickStart (run
     [AudioSelected \<lparr>blob_bytes = [0x49, 0x44, 0x33], blob_type = ascii ''audio/mpeg''\<rparr>
        (ascii ''a.mp3''),
      ClickStart] initial) =
   run
     [AudioSelected \<lparr>blob_bytes = [0x49, 0x44, 0x33], blob_type = ascii ''audio/mpeg''\<rparr>
        (ascii ''a.mp3''),
      ClickStart] initial \<and>
   length (in_flight (run
     [AudioSelected \<lparr>blob_bytes = [0x49, 0x44, 0x33], blob_type = ascii ''audio/mpeg''\<rparr>
        (ascii ''a.mp3''),
      ClickStart, ClickStart, ClickRetry] initial)) = 1"
proof -
  let ?evs = "[AudioSelected \<lparr>blob_bytes = [0x49, 0x44, 0x33], blob_type = ascii ''audio/mpeg''\<rparr>
        (ascii ''a.mp3''),
      ClickStart]"
  have p: "isProcessing (processingState (run ?evs initial))"
    by (simp add: run_def initial_def handlers)
  with invoke_while_processing_is_noop[of ?evs]
  have again: "step ClickStart (run ?evs initial) = run ?evs initial"
    and retry: "step ClickRetry (run ?evs initial) = run ?evs initial"
    by simp_all
  have "run (?evs @ [ClickStart, ClickRetry]) initial =
      step ClickRetry (step ClickStart (run ?evs initial))"
    by (simp add: run_def)
  with again retry have "run (?evs @ [ClickStart, ClickRetry]) initial = run ?evs initial"
    by simp
  moreover have "length (in_flight (run ?evs initial)) = 1"
    by (simp add: run_def initial_def handlers)
  ultimately show ?thesis using p again by simp
qed

text \<open>
  Claim C5 as it is worded fails: a file is selected and the start button clicked, the
  audio is cleared and a second file selected, and the start button, rendered again, is
  clicked. Two calls are then awaited at once.
\<close>

theorem two_calls_in_flight:
  "length (in_flight (run
     [AudioSelected \<lparr>blob_bytes = [0x49, 0x44, 0x33], blob_type = ascii ''audio/mpeg''\<rparr>
        (ascii ''a.mp3''),
      ClickStart, ClickClear,
      AudioSelected \<lparr>blob_bytes = [0x52, 0x49, 0x46, 0x46], blob_type = ascii ''audio/wav''\<rparr>
        (ascii ''b.wav''),
      ClickStart] initial)) = 2"
  by (simp add: run_def initial_def handlers ascii_def)

text \<open>\<^verbatim>\<open>clearAudio\<close> revokes the object URL of the source it clears.\<close>

lemma clearAudio_revokes:
  "url (audioState s) = Some u \<Longrightarrow> u \<notin> set (live_urls (clearAudio s))"
  by (simp add: clearAudio_def)

text \<open>
  Claim C9 does not hold of \<^verbatim>\<open>handleAudioSelected\<close>: it creates the object URL of
  the new source and revokes none. After a second selection the URL of the first source
  (0) is still live, and the session refers to the second (1) only.
\<close>

theorem second_selection_leaves_first_url:
  "live_urls (run
     [AudioSelected \<lparr>blob_bytes = [0x49, 0x44, 0x33], blob_type = ascii ''audio/mpeg''\<rparr>
        (ascii ''a.mp3''),
      AudioSelected \<lparr>blob_bytes = [0x52, 0x49, 0x46, 0x46], blob_type = ascii ''audio/wav''\<rparr>
        (ascii ''b.wav'')] initial) = [1, 0] \<and>
   url (audioState (run
     [AudioSelected \<lparr>blob_bytes = [0x49, 0x44, 0x33], blob_type = ascii ''audio/mpeg''\<rparr>
        (ascii ''a.mp3''),
      AudioSelected \<lparr>blob_bytes = [0x52, 0x49, 0x46, 0x46], blob_type = ascii ''audio/wav''\<rparr>
        (ascii ''b.wav'')] initial)) = Some 1"
  by (simp add: run_def initial_def handlers)

end
